theory Spec2Isabelle
  imports Main
begin

section \<open>The media processing worker (backend/processing/processing.go)\<close>

text \<open>
  The worker is a sequence of calls to the outside world: two SQL databases (the
  \<open>processing_jobs\<close> table and the \<open>media\<close> table), an object store, the local
  file system and two external programs (\<open>ffmpeg\<close>, \<open>ffprobe\<close>).  Every such
  call can fail.  The model threads an explicit state (the two tables, the list of calls
  made so far and the log) through the Go functions and reads the outcome of every
  external call from an environment: which call fails with which error text, what the
  database clock and the identifier generator return, what the external programs print.
  A Go \<open>error\<close> value is modelled by its \<open>Error()\<close> text; \<open>nil\<close> is \<open>None\<close>.
\<close>

subsection \<open>Data model\<close>

text \<open>A row of table \<open>media\<close> (media/migrations/1\_create\_media.up.sql); the primary key
  \<open>id\<close> is the key of the map that holds the rows.  A nullable column is an option.\<close>

record media_row =
  owner_id :: int
  title :: "string option"
  original_filename :: "string option"
  s3_key_original :: string
  s3_key_processed :: "string option"
  mime_type :: "string option"
  size_bytes :: "int option"
  duration_seconds :: "int option"
  status :: string
  created_at :: nat

text \<open>A row of table \<open>processing_jobs\<close> (processing/migrations/1\_create\_processing.up.sql).
  Every insert of this repository takes \<open>created_at\<close> from its default \<open>NOW()\<close>.\<close>

record job_row =
  job_id :: string
  job_media_id :: string
  job_status :: string
  job_error_message :: "string option"
  job_started_at :: "nat option"
  job_completed_at :: "nat option"
  job_created_at :: nat

text \<open>The message type \<open>media.MediaUploaded\<close> and the response type \<open>JobStatusResponse\<close>.\<close>

record MediaUploaded =
  MediaID :: string
  S3Key :: string
  OwnerID :: int


text \<open>The external calls of the worker, one constructor for each call site.\<close>

datatype op =
    JobInsert | MediaSetProcessing
  | NewMinioClient | MkdirTemp | GetObject | CreateInput | CopyObject
  | RunFfmpeg | RunFfprobe | MediaSetDuration
  | OpenOutput | StatOutput | PutObject | MediaSetSize
  | MediaSetFailed | JobSetFailed | MediaSetReady | JobSetCompleted
  | JobSelect | MediaSelect

datatype level = Info | Error

type_synonym log_entry = "level \<times> string \<times> (string \<times> string) list"

record state =
  jobs :: "job_row list"
  media :: "string \<rightharpoonup> media_row"
  calls :: "op list"
  logs :: "log_entry list"

text \<open>The environment of one run.  \<open>fault w p = Some e\<close>: the call \<open>p\<close> returns an error whose
  text is \<open>e\<close> (for \<open>RunFfmpeg\<close> and \<open>RunFfprobe\<close>: the program could not be started or
  exited with a non-zero status, and \<open>e\<close> is the text of that error, such as
  \<open>exit status 1\<close>).  \<open>now w p\<close> is what \<open>NOW()\<close> returns in the statement of call \<open>p\<close>,
  \<open>newJobID\<close> what \<open>gen_random_uuid()\<close> returns, \<open>ffmpegOutput\<close> the combined standard
  output and standard error of the encoder, \<open>ffprobeOutput\<close> the standard output of the
  probe, \<open>outputSize\<close> the size \<open>stat.Size()\<close> of the encoded file.\<close>

record env =
  fault :: "op \<Rightarrow> string option"
  now :: "op \<Rightarrow> nat"
  newJobID :: string
  ffmpegOutput :: string
  ffprobeOutput :: string
  outputSize :: int

text \<open>Functions of the Go standard library that the worker calls and that are not part of
  this repository are parameters of the model: \<open>strings.ToLower\<close>, \<open>strings.TrimSpace\<close>,
  and \<open>ScanFloat s\<close> for \<open>fmt.Sscanf(s, "%f", &duration)\<close> followed by \<open>int(duration)\<close>:
  \<open>None\<close> when the scan fails (the variable keeps its zero value), \<open>Some n\<close> when a
  floating-point number is scanned and its conversion to \<open>int\<close> is \<open>n\<close>.\<close>

record golib =
  ToLower :: "string \<Rightarrow> string"
  TrimSpace :: "string \<Rightarrow> string"
  ScanFloat :: "string \<Rightarrow> int option"

subsection \<open>Primitive effects\<close>

definition call :: "op \<Rightarrow> state \<Rightarrow> state" where
  "call p st = st\<lparr>calls := calls st @ [p]\<rparr>"

definition rlog :: "level \<Rightarrow> string \<Rightarrow> (string \<times> string) list \<Rightarrow> state \<Rightarrow> state" where
  "rlog lv m kv st = st\<lparr>logs := logs st @ [(lv, m, kv)]\<rparr>"

text \<open>\<open>mediaDB.Exec(ctx, `UPDATE media SET ... WHERE id = $1`, mid, ...)\<close>: the statement
  fails as the environment says, or updates the row with that key; a missing row is not an
  error (no row is affected, the table stays as it is).\<close>

definition mediaExec ::
  "env \<Rightarrow> op \<Rightarrow> string \<Rightarrow> (media_row \<Rightarrow> media_row) \<Rightarrow> state \<Rightarrow> state \<times> string option" where
  "mediaExec w p mid upd st =
     (let st1 = call p st in
      case fault w p of
        Some e \<Rightarrow> (st1, Some e)
      | None \<Rightarrow> (st1\<lparr>media := (media st1)(mid := map_option upd (media st1 mid))\<rparr>, None))"

text \<open>\<open>db.Exec(ctx, `UPDATE processing_jobs SET ... WHERE id = $1`, jid, ...)\<close>.\<close>

definition jobExec ::
  "env \<Rightarrow> op \<Rightarrow> string \<Rightarrow> (job_row \<Rightarrow> job_row) \<Rightarrow> state \<Rightarrow> state \<times> string option" where
  "jobExec w p jid upd st =
     (let st1 = call p st in
      case fault w p of
        Some e \<Rightarrow> (st1, Some e)
      | None \<Rightarrow>
          (st1\<lparr>jobs := map (\<lambda>j. if job_id j = jid then upd j else j) (jobs st1)\<rparr>, None))"

text \<open>\<open>INSERT INTO processing_jobs (media_id, status, started_at) VALUES ($1, 'processing',
  NOW()) RETURNING id\<close>: the other columns take their defaults; the primary key rejects an
  identifier that is already in the table.  The result is the error or the new identifier.\<close>

definition insertJob :: "env \<Rightarrow> string \<Rightarrow> state \<Rightarrow> state \<times> (string + string)" where
  "insertJob w mid st =
     (let st1 = call JobInsert st in
      case fault w JobInsert of
        Some e \<Rightarrow> (st1, Inl e)
      | None \<Rightarrow>
          if newJobID w \<in> set (map job_id (jobs st1))
          then (st1, Inl ''duplicate key value violates unique constraint'')
          else (st1\<lparr>jobs := jobs st1 @
                  [\<lparr>job_id = newJobID w, job_media_id = mid, job_status = ''processing'',
                    job_error_message = None, job_started_at = Some (now w JobInsert),
                    job_completed_at = None, job_created_at = now w JobInsert\<rparr>]\<rparr>,
                Inr (newJobID w)))"

subsection \<open>Classification of the storage key\<close>

text \<open>\<open>filepath.Ext\<close> (Go standard library, Unix path separator): the suffix of the path that
  begins at the last dot of its last element, empty when that element has no dot.  The
  scan runs from the end of the path; \<open>ext_scan\<close> takes the path reversed and collects
  the characters passed so far.\<close>

fun ext_scan :: "string \<Rightarrow> string \<Rightarrow> string" where
  "ext_scan [] acc = []"
| "ext_scan (c # cs) acc =
     (if c = CHR ''/'' then []
      else if c = CHR ''.'' then c # acc
      else ext_scan cs (c # acc))"

definition Ext :: "string \<Rightarrow> string" where
  "Ext path = ext_scan (rev path) []"

definition videoExts :: "string list" where
  "videoExts = [''.mp4'', ''.mkv'', ''.avi'', ''.mov'', ''.wmv'', ''.flv'', ''.webm'',
                ''.m4v'', ''.mpeg'', ''.mpg'', ''.3gp'']"

text \<open>The loop \<open>for _, e := range videoExts { if ext == e { return true } }; return false\<close>.\<close>

fun ext_in :: "string \<Rightarrow> string list \<Rightarrow> bool" where
  "ext_in ext [] = False"
| "ext_in ext (e # es) = (if ext = e then True else ext_in ext es)"

definition isVideoFile :: "golib \<Rightarrow> string \<Rightarrow> bool" where
  "isVideoFile L key = (let ext = ToLower L (Ext key) in ext_in ext videoExts)"

subsection \<open>Duration probe\<close>

text \<open>\<open>getVideoDuration\<close>: run the probe; an error of the run returns 0; otherwise the
  trimmed output is scanned, and the error of the scan is ignored.\<close>

definition getVideoDuration :: "golib \<Rightarrow> env \<Rightarrow> state \<Rightarrow> state \<times> int" where
  "getVideoDuration L w st =
     (let st1 = call RunFfprobe st in
      case fault w RunFfprobe of
        Some e \<Rightarrow> (st1, 0)
      | None \<Rightarrow>
          (st1, case ScanFloat L (TrimSpace L (ffprobeOutput w)) of
                  None \<Rightarrow> 0
                | Some d \<Rightarrow> d))"

subsection \<open>The transcode sequence\<close>

text \<open>The steps of \<open>transcodeVideo\<close> that stage the original file, before the key is
  classified: creating the client and the scratch directory, opening the object, creating
  the local file and copying the object into it.  \<open>stagingSucceeds\<close> says that none of
  them fails.\<close>

definition stagingSucceeds :: "env \<Rightarrow> bool" where
  "stagingSucceeds w =
     (fault w NewMinioClient = None \<and> fault w MkdirTemp = None \<and> fault w GetObject = None \<and>
      fault w CreateInput = None \<and> fault w CopyObject = None)"

text \<open>\<open>transcodeVideo\<close> returns \<open>Inl e\<close> for the Go result \<open>("", err)\<close> and \<open>Inr key\<close> for
  \<open>(key, nil)\<close>.  \<open>fmt.Errorf("...: %w", err)\<close> has the text of its format with the text
  of \<open>err\<close> in place of the verb.  The deferred clean-up (closing files, removing the
  scratch directory) touches nothing the model holds and is left out.\<close>

definition transcodeVideo ::
  "golib \<Rightarrow> env \<Rightarrow> string \<Rightarrow> string \<Rightarrow> state \<Rightarrow> state \<times> (string + string)" where
  "transcodeVideo L w mediaID s3Key st =
     (let st1 = call NewMinioClient st in
      case fault w NewMinioClient of
        Some e \<Rightarrow> (st1, Inl (''failed to create MinIO client: '' @ e))
      | None \<Rightarrow>
     (let st2 = call MkdirTemp st1 in
      case fault w MkdirTemp of
        Some e \<Rightarrow> (st2, Inl (''failed to create temp directory: '' @ e))
      | None \<Rightarrow>
     (let st3 = call GetObject st2 in
      case fault w GetObject of
        Some e \<Rightarrow> (st3, Inl (''failed to get object from S3: '' @ e))
      | None \<Rightarrow>
     (let st4 = call CreateInput st3 in
      case fault w CreateInput of
        Some e \<Rightarrow> (st4, Inl (''failed to create input file: '' @ e))
      | None \<Rightarrow>
     (let st5 = call CopyObject st4 in
      case fault w CopyObject of
        Some e \<Rightarrow> (st5, Inl (''failed to download file: '' @ e))
      | None \<Rightarrow>
      if \<not> isVideoFile L s3Key
      then (rlog Info ''file is not a video, skipping transcoding'' [(''s3_key'', s3Key)] st5,
            Inr [])
      else
     (let st6 = call RunFfmpeg st5 in
      case fault w RunFfmpeg of
        Some e \<Rightarrow>
          (rlog Error ''ffmpeg failed'' [(''error'', e), (''output'', ffmpegOutput w)] st6,
           Inl (''ffmpeg transcoding failed: '' @ e))
      | None \<Rightarrow>
     (let (st7, duration) = getVideoDuration L w st6;
          st8 = (if duration > 0
                 then fst (mediaExec w MediaSetDuration mediaID
                             (\<lambda>r. r\<lparr>duration_seconds := Some duration\<rparr>) st7)
                 else st7);
          processedKey = ''processed/'' @ mediaID @ ''.mp4'';
          st9 = call OpenOutput st8 in
      case fault w OpenOutput of
        Some e \<Rightarrow> (st9, Inl (''failed to open output file: '' @ e))
      | None \<Rightarrow>
     (let st10 = call StatOutput st9 in
      case fault w StatOutput of
        Some e \<Rightarrow> (st10, Inl (''failed to stat output file: '' @ e))
      | None \<Rightarrow>
     (let st11 = call PutObject st10 in
      case fault w PutObject of
        Some e \<Rightarrow> (st11, Inl (''failed to upload processed file: '' @ e))
      | None \<Rightarrow>
          (fst (mediaExec w MediaSetSize mediaID
                  (\<lambda>r. r\<lparr>size_bytes := Some (outputSize w)\<rparr>) st11),
           Inr processedKey))))))))))"

subsection \<open>The event handler\<close>

text \<open>\<open>processMedia\<close> returns the state after the run and the handler's error (\<open>None\<close> for
  \<open>nil\<close>).  The variable \<open>jobID\<close> keeps its zero value, the empty string, when the insert
  fails.\<close>

definition processMedia ::
  "golib \<Rightarrow> env \<Rightarrow> MediaUploaded \<Rightarrow> state \<Rightarrow> state \<times> string option" where
  "processMedia L w msg st =
     (let st0 = rlog Info ''processing media''
                  [(''media_id'', MediaID msg), (''s3_key'', S3Key msg)] st;
          (st1, ins) = insertJob w (MediaID msg) st0;
          jobID = (case ins of Inl e \<Rightarrow> [] | Inr i \<Rightarrow> i);
          st2 = (case ins of
                   Inl e \<Rightarrow> rlog Error ''failed to create processing job'' [(''error'', e)] st1
                 | Inr i \<Rightarrow> st1);
          (st3, err) = mediaExec w MediaSetProcessing (MediaID msg)
                         (\<lambda>r. r\<lparr>status := ''processing''\<rparr>) st2 in
      case err of
        Some e \<Rightarrow> (rlog Error ''failed to update media status'' [(''error'', e)] st3, Some e)
      | None \<Rightarrow>
          (case transcodeVideo L w (MediaID msg) (S3Key msg) st3 of
             (st4, Inl e) \<Rightarrow>
               (let st5 = rlog Error ''transcoding failed''
                            [(''error'', e), (''media_id'', MediaID msg)] st4;
                    st6 = fst (mediaExec w MediaSetFailed (MediaID msg)
                                 (\<lambda>r. r\<lparr>status := ''failed''\<rparr>) st5);
                    st7 = (if jobID \<noteq> []
                           then fst (jobExec w JobSetFailed jobID
                                       (\<lambda>j. j\<lparr>job_status := ''failed'',
                                               job_error_message := Some e,
                                               job_completed_at := Some (now w JobSetFailed)\<rparr>)
                                       st6)
                           else st6) in
                (st7, Some e))
           | (st4, Inr processedKey) \<Rightarrow>
               (case mediaExec w MediaSetReady (MediaID msg)
                       (\<lambda>r. r\<lparr>status := ''ready'', s3_key_processed := Some processedKey\<rparr>) st4 of
                  (st5, Some e) \<Rightarrow>
                    (rlog Error ''failed to update media with processed key'' [(''error'', e)] st5,
                     Some e)
                | (st5, None) \<Rightarrow>
                    (let st6 = (if jobID \<noteq> []
                                then fst (jobExec w JobSetCompleted jobID
                                            (\<lambda>j. j\<lparr>job_status := ''completed'',
                                                    job_completed_at :=
                                                      Some (now w JobSetCompleted)\<rparr>)
                                            st5)
                                else st5) in
                     (rlog Info ''media processing completed''
                        [(''media_id'', MediaID msg), (''processed_key'', processedKey)] st6,
                      None)))))"

subsection \<open>The status query\<close>



subsection \<open>Reading the processed key\<close>

text \<open>The media service reads the processed key of a row as
  \<open>COALESCE(s3_key_processed, '')\<close> (media/media.go, \<open>GetMedia\<close> and \<open>DeleteMedia\<close>): NULL and the empty string both read as the empty key.\<close>

definition coalescedProcessedKey :: "media_row \<Rightarrow> string" where
  "coalescedProcessedKey r = (case s3_key_processed r of None \<Rightarrow> [] | Some k \<Rightarrow> k)"

subsection \<open>A concrete library, states and environments\<close>

text \<open>To run the model, the library parameters are instantiated on ASCII text: lower-casing
  of the letters A to Z, trimming of blanks, tabs, line feeds and carriage returns, and a
  scan that accepts an unsigned decimal numeral and returns its integer part.\<close>

definition asciiToLower :: "string \<Rightarrow> string" where
  "asciiToLower s =
     map (\<lambda>c. case map_of (zip ''ABCDEFGHIJKLMNOPQRSTUVWXYZ'' ''abcdefghijklmnopqrstuvwxyz'') c of
                None \<Rightarrow> c | Some d \<Rightarrow> d) s"

definition asciiSpace :: "char \<Rightarrow> bool" where
  "asciiSpace c = (c = CHR '' '' \<or> c = CHR 0x09 \<or> c = CHR 0x0A \<or> c = CHR 0x0D)"

definition asciiTrimSpace :: "string \<Rightarrow> string" where
  "asciiTrimSpace s = rev (dropWhile asciiSpace (rev (dropWhile asciiSpace s)))"

definition digitValue :: "char \<Rightarrow> int option" where
  "digitValue c = map_of (zip ''0123456789'' [0, 1, 2, 3, 4, 5, 6, 7, 8, 9]) c"

fun scanDigits :: "string \<Rightarrow> int option \<Rightarrow> int option" where
  "scanDigits [] acc = acc"
| "scanDigits (c # cs) acc =
     (case digitValue c of
        None \<Rightarrow> acc
      | Some d \<Rightarrow> scanDigits cs (Some (10 * (case acc of None \<Rightarrow> 0 | Some a \<Rightarrow> a) + d)))"

definition asciiLib :: golib where
  "asciiLib = \<lparr>ToLower = asciiToLower, TrimSpace = asciiTrimSpace,
               ScanFloat = (\<lambda>s. scanDigits s None)\<rparr>"

definition clipRow :: media_row where
  "clipRow = \<lparr>owner_id = 7, title = Some ''clip'', original_filename = Some ''clip.mov'',
              s3_key_original = ''original/7/m1/clip.mov'', s3_key_processed = None,
              mime_type = Some ''video/quicktime'', size_bytes = Some 1000,
              duration_seconds = None, status = ''queued'', created_at = 10\<rparr>"

definition docRow :: media_row where
  "docRow = \<lparr>owner_id = 7, title = Some ''doc'', original_filename = Some ''doc.pdf'',
             s3_key_original = ''original/7/m2/doc.pdf'', s3_key_processed = None,
             mime_type = Some ''application/pdf'', size_bytes = Some 500,
             duration_seconds = None, status = ''queued'', created_at = 11\<rparr>"

definition queuedState :: state where
  "queuedState = \<lparr>jobs = [], media = [''m1'' \<mapsto> clipRow, ''m2'' \<mapsto> docRow],
                  calls = [], logs = []\<rparr>"

definition clipMsg :: MediaUploaded where
  "clipMsg = \<lparr>MediaID = ''m1'', S3Key = ''original/7/m1/clip.mov'', OwnerID = 7\<rparr>"

definition docMsg :: MediaUploaded where
  "docMsg = \<lparr>MediaID = ''m2'', S3Key = ''original/7/m2/doc.pdf'', OwnerID = 7\<rparr>"

definition okEnv :: env where
  "okEnv = \<lparr>fault = (\<lambda>p. None), now = (\<lambda>p. 100), newJobID = ''job-1'',
            ffmpegOutput = ''frame= 300 fps= 60'', ffprobeOutput = ''12.500000'' @ [CHR 0x0A],
            outputSize = 2048\<rparr>"

text \<open>A redelivery: a later clock, a fresh job identifier, and an object store that
  refuses the connection when the object is read.\<close>

definition fetchFailsEnv :: env where
  "fetchFailsEnv = \<lparr>fault = (\<lambda>p. None)(CopyObject := Some ''connection refused''),
                    now = (\<lambda>p. 200), newJobID = ''job-2'',
                    ffmpegOutput = [], ffprobeOutput = [], outputSize = 0\<rparr>"

definition encoderFailsEnv :: env where
  "encoderFailsEnv = \<lparr>fault = (\<lambda>p. None)(RunFfmpeg := Some ''exit status 1''),
                      now = (\<lambda>p. 100), newJobID = ''job-1'',
                      ffmpegOutput = ''Unknown encoder libx265'', ffprobeOutput = [],
                      outputSize = 0\<rparr>"

definition probeFailsEnv :: env where
  "probeFailsEnv = okEnv\<lparr>fault := (\<lambda>p. None)(RunFfprobe := Some ''exit status 1'')\<rparr>"

definition probeGarbageEnv :: env where
  "probeGarbageEnv = okEnv\<lparr>ffprobeOutput := ''N/A''\<rparr>"




text \<open>A run whose request was cancelled while the encoder ran: the encoder is killed, and
  the statements issued afterwards on the same request fail.\<close>

definition cancelledEncodeEnv :: env where
  "cancelledEncodeEnv =
     \<lparr>fault = (\<lambda>p. None)(RunFfmpeg := Some ''signal: killed'',
                               MediaSetFailed := Some ''context canceled'',
                               JobSetFailed := Some ''context canceled''),
      now = (\<lambda>p. 100), newJobID = ''job-1'',
      ffmpegOutput = [], ffprobeOutput = [], outputSize = 0\<rparr>"

text \<open>A run whose request was cancelled while the original file was copied.\<close>

definition cancelledFetchEnv :: env where
  "cancelledFetchEnv =
     \<lparr>fault = (\<lambda>p. None)(CopyObject := Some ''context canceled'',
                               MediaSetFailed := Some ''context canceled'',
                               JobSetFailed := Some ''context canceled''),
      now = (\<lambda>p. 100), newJobID = ''job-1'',
      ffmpegOutput = [], ffprobeOutput = [], outputSize = 0\<rparr>"

section \<open>Properties of the model\<close>

subsection \<open>Projections of the primitive effects\<close>

lemma call_proj [simp]:
  "jobs (call p st) = jobs st" "media (call p st) = media st"
  "calls (call p st) = calls st @ [p]" "logs (call p st) = logs st"
  by (simp_all add: call_def)

lemma rlog_proj [simp]:
  "jobs (rlog lv m kv st) = jobs st" "media (rlog lv m kv st) = media st"
  "calls (rlog lv m kv st) = calls st" "logs (rlog lv m kv st) = logs st @ [(lv, m, kv)]"
  by (simp_all add: rlog_def)

lemma mediaExec_snd [simp]: "snd (mediaExec w p mid upd st) = fault w p"
  by (simp add: mediaExec_def Let_def split: option.splits)

lemma mediaExec_proj [simp]:
  "jobs (fst (mediaExec w p mid upd st)) = jobs st"
  "calls (fst (mediaExec w p mid upd st)) = calls st @ [p]"
  "logs (fst (mediaExec w p mid upd st)) = logs st"
  by (simp_all add: mediaExec_def Let_def split: option.splits)

lemma mediaExec_media:
  "media (fst (mediaExec w p mid upd st)) =
     (if fault w p = None then (media st)(mid := map_option upd (media st mid)) else media st)"
  by (simp add: mediaExec_def Let_def split: option.splits)

lemma mediaExec_media_other [simp]:
  "x \<noteq> mid \<Longrightarrow> media (fst (mediaExec w p mid upd st)) x = media st x"
  by (simp add: mediaExec_media)

lemma mediaExec_media_row:
  "media (fst (mediaExec w p mid upd st)) mid =
     (if fault w p = None then map_option upd (media st mid) else media st mid)"
  by (simp add: mediaExec_media)

lemma jobExec_snd [simp]: "snd (jobExec w p jid upd st) = fault w p"
  by (simp add: jobExec_def Let_def split: option.splits)

lemma jobExec_proj [simp]:
  "media (fst (jobExec w p jid upd st)) = media st"
  "calls (fst (jobExec w p jid upd st)) = calls st @ [p]"
  "logs (fst (jobExec w p jid upd st)) = logs st"
  by (simp_all add: jobExec_def Let_def split: option.splits)

lemma jobExec_jobs:
  "jobs (fst (jobExec w p jid upd st)) =
     (if fault w p = None then map (\<lambda>j. if job_id j = jid then upd j else j) (jobs st)
      else jobs st)"
  by (simp add: jobExec_def Let_def split: option.splits)

lemma insertJob_proj [simp]:
  "media (fst (insertJob w mid st)) = media st"
  "calls (fst (insertJob w mid st)) = calls st @ [JobInsert]"
  "logs (fst (insertJob w mid st)) = logs st"
  by (simp_all add: insertJob_def Let_def split: option.splits)

lemma insertJob_created:
  assumes "fault w JobInsert = None" "newJobID w \<notin> set (map job_id (jobs st))"
  shows "snd (insertJob w mid st) = Inr (newJobID w)"
    and "jobs (fst (insertJob w mid st)) = jobs st @
           [\<lparr>job_id = newJobID w, job_media_id = mid, job_status = ''processing'',
             job_error_message = None, job_started_at = Some (now w JobInsert),
             job_completed_at = None, job_created_at = now w JobInsert\<rparr>]"
  using assms by (simp_all add: insertJob_def Let_def)

lemma insertJob_failed:
  assumes "fault w JobInsert = Some e"
  shows "snd (insertJob w mid st) = Inl e" and "jobs (fst (insertJob w mid st)) = jobs st"
  using assms by (simp_all add: insertJob_def Let_def)

lemma getVideoDuration_proj [simp]:
  "jobs (fst (getVideoDuration L w st)) = jobs st"
  "media (fst (getVideoDuration L w st)) = media st"
  "calls (fst (getVideoDuration L w st)) = calls st @ [RunFfprobe]"
  "logs (fst (getVideoDuration L w st)) = logs st"
  by (simp_all add: getVideoDuration_def Let_def split: option.splits)

lemma getVideoDuration_snd:
  "snd (getVideoDuration L w st) =
     (case fault w RunFfprobe of
        Some e \<Rightarrow> 0
      | None \<Rightarrow> (case ScanFloat L (TrimSpace L (ffprobeOutput w)) of None \<Rightarrow> 0 | Some d \<Rightarrow> d))"
  by (simp add: getVideoDuration_def Let_def split: option.splits)

subsection \<open>What the transcode sequence changes and returns\<close>

lemma transcodeVideo_jobs [simp]: "jobs (fst (transcodeVideo L w mid key st)) = jobs st"
  by (simp add: transcodeVideo_def Let_def case_prod_beta split: option.splits)

lemma transcodeVideo_snd_indep:
  "snd (transcodeVideo L w mid key st) = snd (transcodeVideo L w mid key st')"
  by (simp add: transcodeVideo_def Let_def case_prod_beta split: option.splits)

lemma transcodeVideo_media_other [simp]:
  "x \<noteq> mid \<Longrightarrow> media (fst (transcodeVideo L w mid key st)) x = media st x"
  by (simp add: transcodeVideo_def Let_def case_prod_beta split: option.splits)

lemma transcodeVideo_media_none:
  "media st mid = None \<Longrightarrow> media (fst (transcodeVideo L w mid key st)) mid = None"
  by (simp add: transcodeVideo_def Let_def case_prod_beta mediaExec_media_row
      split: option.splits)

lemma transcodeVideo_status [simp]:
  "map_option status (media (fst (transcodeVideo L w mid key st)) x) = map_option status (media st x)"
  by (simp add: transcodeVideo_def Let_def case_prod_beta mediaExec_media option.map_comp o_def
      split: option.splits)

lemma transcodeVideo_processed_key [simp]:
  "map_option s3_key_processed (media (fst (transcodeVideo L w mid key st)) x) =
   map_option s3_key_processed (media st x)"
  by (simp add: transcodeVideo_def Let_def case_prod_beta mediaExec_media option.map_comp o_def
      split: option.splits)


lemma transcodeVideo_nonvideo:
  assumes "stagingSucceeds w" "\<not> isVideoFile L key"
  shows "transcodeVideo L w mid key st =
           (rlog Info ''file is not a video, skipping transcoding'' [(''s3_key'', key)]
              (call CopyObject (call CreateInput (call GetObject (call MkdirTemp
                 (call NewMinioClient st))))),
            Inr [])"
  using assms by (simp add: transcodeVideo_def stagingSucceeds_def Let_def)

lemma transcodeVideo_staging_fails:
  assumes "\<not> stagingSucceeds w"
  shows "\<exists>e. snd (transcodeVideo L w mid key st) = Inl e"
    and "media (fst (transcodeVideo L w mid key st)) = media st"
  using assms
  by (auto simp add: transcodeVideo_def stagingSucceeds_def Let_def split: option.splits)

lemma transcodeVideo_encoder_fails:
  assumes "stagingSucceeds w" "isVideoFile L key" "fault w RunFfmpeg = Some e"
  shows "transcodeVideo L w mid key st =
           (rlog Error ''ffmpeg failed'' [(''error'', e), (''output'', ffmpegOutput w)]
              (call RunFfmpeg (call CopyObject (call CreateInput (call GetObject
                 (call MkdirTemp (call NewMinioClient st)))))),
            Inl (''ffmpeg transcoding failed: '' @ e))"
  using assms by (simp add: transcodeVideo_def stagingSucceeds_def Let_def)

lemma transcodeVideo_stored:
  assumes "stagingSucceeds w" "isVideoFile L key" "fault w RunFfmpeg = None"
    "fault w OpenOutput = None" "fault w StatOutput = None" "fault w PutObject = None"
  shows "snd (transcodeVideo L w mid key st) = Inr (''processed/'' @ mid @ ''.mp4'')"
  using assms
  by (simp add: transcodeVideo_def stagingSucceeds_def Let_def case_prod_beta)

lemma transcodeVideo_error_nonempty:
  "snd (transcodeVideo L w mid key st) = Inl e \<Longrightarrow> e \<noteq> []"
  by (auto simp add: transcodeVideo_def Let_def case_prod_beta split: option.splits if_splits)

lemma transcodeVideo_empty_key:
  "snd (transcodeVideo L w mid key st) = Inr [] \<Longrightarrow> stagingSucceeds w \<and> \<not> isVideoFile L key"
  by (auto simp add: transcodeVideo_def stagingSucceeds_def Let_def case_prod_beta
      split: option.splits if_splits)

lemma transcodeVideo_encoder_called:
  "RunFfmpeg \<in> set (calls (fst (transcodeVideo L w mid key st))) \<longleftrightarrow>
     RunFfmpeg \<in> set (calls st) \<or> (stagingSucceeds w \<and> isVideoFile L key)"
  by (auto simp add: transcodeVideo_def stagingSucceeds_def Let_def case_prod_beta
      split: option.splits if_splits)

lemma transcodeVideo_probe_called:
  "RunFfprobe \<in> set (calls (fst (transcodeVideo L w mid key st))) \<longleftrightarrow>
     RunFfprobe \<in> set (calls st) \<or>
     (stagingSucceeds w \<and> isVideoFile L key \<and> fault w RunFfmpeg = None)"
  by (auto simp add: transcodeVideo_def stagingSucceeds_def Let_def case_prod_beta
      split: option.splits if_splits)

lemma transcodeVideo_duration_called:
  "MediaSetDuration \<in> set (calls (fst (transcodeVideo L w mid key st))) \<longleftrightarrow>
     MediaSetDuration \<in> set (calls st) \<or>
     (stagingSucceeds w \<and> isVideoFile L key \<and> fault w RunFfmpeg = None \<and>
      0 < snd (getVideoDuration L w st))"
  by (auto simp add: transcodeVideo_def stagingSucceeds_def Let_def case_prod_beta
      getVideoDuration_snd split: option.splits if_splits)

lemma transcodeVideo_duration_kept:
  assumes "\<not> (stagingSucceeds w \<and> isVideoFile L key \<and> fault w RunFfmpeg = None \<and>
             fault w MediaSetDuration = None \<and> 0 < snd (getVideoDuration L w st))"
  shows "map_option duration_seconds (media (fst (transcodeVideo L w mid key st)) x) =
         map_option duration_seconds (media st x)"
  using assms
  by (auto simp add: transcodeVideo_def stagingSucceeds_def Let_def case_prod_beta
      mediaExec_media option.map_comp o_def getVideoDuration_snd split: option.splits if_splits)

lemma transcodeVideo_duration_written:
  assumes "stagingSucceeds w" "isVideoFile L key" "fault w RunFfmpeg = None"
    "fault w MediaSetDuration = None" "0 < snd (getVideoDuration L w st)"
  shows "map_option duration_seconds (media (fst (transcodeVideo L w mid key st)) mid) =
         map_option (\<lambda>r. Some (snd (getVideoDuration L w st))) (media st mid)"
  using assms
  by (auto simp add: transcodeVideo_def stagingSucceeds_def Let_def case_prod_beta
      mediaExec_media option.map_comp o_def getVideoDuration_snd split: option.splits if_splits)

subsection \<open>What the handler changes and returns\<close>

lemma processMedia_result:
  "snd (processMedia L w msg st) =
     (case fault w MediaSetProcessing of
        Some e \<Rightarrow> Some e
      | None \<Rightarrow>
          (case snd (transcodeVideo L w (MediaID msg) (S3Key msg) st) of
             Inl e \<Rightarrow> Some e
           | Inr k \<Rightarrow> fault w MediaSetReady))"
proof -
  obtain R where R: "\<And>s. snd (transcodeVideo L w (MediaID msg) (S3Key msg) s) = R"
    using transcodeVideo_snd_indep by blast
  show ?thesis
    by (simp add: processMedia_def Let_def case_prod_beta R split: option.splits sum.splits)
qed

lemma processMedia_media_other:
  "x \<noteq> MediaID msg \<Longrightarrow> media (fst (processMedia L w msg st)) x = media st x"
  by (simp add: processMedia_def Let_def case_prod_beta split: option.splits sum.splits)

lemma processMedia_update_fails:
  assumes "fault w MediaSetProcessing = Some e"
  shows "media (fst (processMedia L w msg st)) = media st"
    and "calls (fst (processMedia L w msg st)) = calls st @ [JobInsert, MediaSetProcessing]"
  using assms
  by (simp_all add: processMedia_def Let_def case_prod_beta mediaExec_media split: sum.splits)

lemma transcodeVideo_const:
  "map_option (\<lambda>r. c) (media (fst (transcodeVideo L w mid key st)) x) =
   map_option (\<lambda>r. c) (media st x)"
proof -
  have "media (fst (transcodeVideo L w mid key st)) x = None \<longleftrightarrow> media st x = None"
    using transcodeVideo_status[of L w mid key st x] by (metis option.map_disc_iff)
  then show ?thesis
    by (cases "media st x"; cases "media (fst (transcodeVideo L w mid key st)) x") auto
qed

lemma processMedia_status:
  assumes "fault w MediaSetProcessing = None"
  shows "map_option status (media (fst (processMedia L w msg st)) (MediaID msg)) =
         map_option
           (\<lambda>r. case snd (transcodeVideo L w (MediaID msg) (S3Key msg) st) of
                   Inl e \<Rightarrow> if fault w MediaSetFailed = None then ''failed'' else ''processing''
                 | Inr k \<Rightarrow> if fault w MediaSetReady = None then ''ready'' else ''processing'')
           (media st (MediaID msg))"
proof -
  obtain R where R: "\<And>s. snd (transcodeVideo L w (MediaID msg) (S3Key msg) s) = R"
    using transcodeVideo_snd_indep by blast
  show ?thesis
    using assms
    by (simp add: processMedia_def Let_def case_prod_beta R mediaExec_media_row
        option.map_comp o_def transcodeVideo_const split: option.splits sum.splits)
qed


lemma processMedia_processed_key:
  assumes "fault w MediaSetProcessing = None"
  shows "map_option s3_key_processed (media (fst (processMedia L w msg st)) (MediaID msg)) =
         map_option
           (\<lambda>r. case snd (transcodeVideo L w (MediaID msg) (S3Key msg) st) of
                   Inl e \<Rightarrow> s3_key_processed r
                 | Inr k \<Rightarrow> if fault w MediaSetReady = None then Some k else s3_key_processed r)
           (media st (MediaID msg))"
proof -
  obtain R where R: "\<And>s. snd (transcodeVideo L w (MediaID msg) (S3Key msg) s) = R"
    using transcodeVideo_snd_indep by blast
  show ?thesis
    using assms
    by (simp add: processMedia_def Let_def case_prod_beta R mediaExec_media_row
        option.map_comp o_def transcodeVideo_const split: option.splits sum.splits)
qed

lemma processMedia_nonvideo:
  assumes "fault w MediaSetProcessing = None" "stagingSucceeds w"
    "\<not> isVideoFile L (S3Key msg)" "fault w MediaSetReady = None"
  shows "media (fst (processMedia L w msg st)) =
         (media st)(MediaID msg :=
            map_option (\<lambda>r. r\<lparr>status := ''ready'', s3_key_processed := Some []\<rparr>)
              (media st (MediaID msg)))"
  using assms
  by (simp add: processMedia_def Let_def case_prod_beta transcodeVideo_nonvideo
      mediaExec_media option.map_comp o_def split: sum.splits)

lemma map_update_fresh:
  "i \<notin> set (map job_id js) \<Longrightarrow> map (\<lambda>j. if job_id j = i then upd j else j) js = js"
  by (induction js) auto

lemma processMedia_jobs_failed:
  assumes "fault w JobInsert = None" "newJobID w \<notin> set (map job_id (jobs st))"
    "newJobID w \<noteq> []" "fault w MediaSetProcessing = None"
    "snd (transcodeVideo L w (MediaID msg) (S3Key msg) st) = Inl e"
    "fault w JobSetFailed = None"
  shows "jobs (fst (processMedia L w msg st)) = jobs st @
           [\<lparr>job_id = newJobID w, job_media_id = MediaID msg, job_status = ''failed'',
             job_error_message = Some e, job_started_at = Some (now w JobInsert),
             job_completed_at = Some (now w JobSetFailed), job_created_at = now w JobInsert\<rparr>]"
proof -
  have R: "\<And>s. snd (transcodeVideo L w (MediaID msg) (S3Key msg) s) = Inl e"
    using assms(5) transcodeVideo_snd_indep by metis
  have ins: "newJobID w \<notin> set (map job_id (jobs (rlog lv m kv st)))" for lv m kv
    using assms(2) by simp
  show ?thesis
    using assms(1,3,4,6)
    by (simp add: processMedia_def Let_def case_prod_beta R insertJob_created[OF assms(1) ins]
        jobExec_jobs map_update_fresh[OF assms(2)] del: set_map)
qed

lemma processMedia_jobs_completed:
  assumes "fault w JobInsert = None" "newJobID w \<notin> set (map job_id (jobs st))"
    "newJobID w \<noteq> []" "fault w MediaSetProcessing = None"
    "snd (transcodeVideo L w (MediaID msg) (S3Key msg) st) = Inr k"
    "fault w MediaSetReady = None" "fault w JobSetCompleted = None"
  shows "jobs (fst (processMedia L w msg st)) = jobs st @
           [\<lparr>job_id = newJobID w, job_media_id = MediaID msg, job_status = ''completed'',
             job_error_message = None, job_started_at = Some (now w JobInsert),
             job_completed_at = Some (now w JobSetCompleted),
             job_created_at = now w JobInsert\<rparr>]"
proof -
  have R: "\<And>s. snd (transcodeVideo L w (MediaID msg) (S3Key msg) s) = Inr k"
    using assms(5) transcodeVideo_snd_indep by metis
  have ins: "newJobID w \<notin> set (map job_id (jobs (rlog lv m kv st)))" for lv m kv
    using assms(2) by simp
  show ?thesis
    using assms(1,3,4,6,7)
    by (simp add: processMedia_def Let_def case_prod_beta R insertJob_created[OF assms(1) ins]
        jobExec_jobs map_update_fresh[OF assms(2)] del: set_map)
qed

lemma processMedia_jobs_not_created:
  assumes "fault w JobInsert = Some x"
  shows "jobs (fst (processMedia L w msg st)) = jobs st"
  using assms
  by (simp add: processMedia_def Let_def case_prod_beta insertJob_failed
      split: option.splits sum.splits)


lemma transcodeVideo_fetch_called:
  "GetObject \<in> set (calls (fst (transcodeVideo L w mid key st))) \<longleftrightarrow>
     GetObject \<in> set (calls st) \<or> (fault w NewMinioClient = None \<and> fault w MkdirTemp = None)"
  by (auto simp add: transcodeVideo_def Let_def case_prod_beta split: option.splits if_splits)

lemma processMedia_encoder_called:
  "RunFfmpeg \<in> set (calls (fst (processMedia L w msg st))) \<longleftrightarrow>
     RunFfmpeg \<in> set (calls st) \<or>
     (fault w MediaSetProcessing = None \<and> stagingSucceeds w \<and> isVideoFile L (S3Key msg))"
  by (auto simp add: processMedia_def Let_def case_prod_beta transcodeVideo_encoder_called
      split: option.splits sum.splits)

lemma processMedia_fetch_called:
  "GetObject \<in> set (calls (fst (processMedia L w msg st))) \<longleftrightarrow>
     GetObject \<in> set (calls st) \<or>
     (fault w MediaSetProcessing = None \<and> fault w NewMinioClient = None \<and>
      fault w MkdirTemp = None)"
  by (auto simp add: processMedia_def Let_def case_prod_beta transcodeVideo_fetch_called
      split: option.splits sum.splits)




lemma transcodeVideo_result_env:
  assumes "fault w' NewMinioClient = fault w NewMinioClient"
    "fault w' MkdirTemp = fault w MkdirTemp" "fault w' GetObject = fault w GetObject"
    "fault w' CreateInput = fault w CreateInput" "fault w' CopyObject = fault w CopyObject"
    "fault w' RunFfmpeg = fault w RunFfmpeg" "fault w' OpenOutput = fault w OpenOutput"
    "fault w' StatOutput = fault w StatOutput" "fault w' PutObject = fault w PutObject"
  shows "snd (transcodeVideo L w' mid key st) = snd (transcodeVideo L w mid key st)"
  using assms
  by (simp add: transcodeVideo_def Let_def case_prod_beta split: option.splits)

lemma processMedia_result_env:
  assumes "fault w' MediaSetProcessing = fault w MediaSetProcessing"
    "fault w' MediaSetReady = fault w MediaSetReady"
    "fault w' NewMinioClient = fault w NewMinioClient"
    "fault w' MkdirTemp = fault w MkdirTemp" "fault w' GetObject = fault w GetObject"
    "fault w' CreateInput = fault w CreateInput" "fault w' CopyObject = fault w CopyObject"
    "fault w' RunFfmpeg = fault w RunFfmpeg" "fault w' OpenOutput = fault w OpenOutput"
    "fault w' StatOutput = fault w StatOutput" "fault w' PutObject = fault w PutObject"
  shows "snd (processMedia L w' msg st) = snd (processMedia L w msg st)"
  using assms(1,2) transcodeVideo_result_env[OF assms(3-11), of L "MediaID msg" "S3Key msg" st]
  by (simp add: processMedia_result split: option.splits sum.splits)

lemma processMedia_encoder_logged:
  assumes "fault w MediaSetProcessing = None" "stagingSucceeds w" "isVideoFile L (S3Key msg)"
    "fault w RunFfmpeg = Some e"
  shows "(Error, ''ffmpeg failed'', [(''error'', e), (''output'', ffmpegOutput w)])
           \<in> set (logs (fst (processMedia L w msg st)))"
  using assms
  by (simp add: processMedia_def Let_def case_prod_beta transcodeVideo_encoder_fails
      split: sum.splits)

lemma processMedia_duration_kept:
  assumes "\<not> (fault w MediaSetProcessing = None \<and> stagingSucceeds w \<and>
             isVideoFile L (S3Key msg) \<and> fault w RunFfmpeg = None \<and>
             fault w MediaSetDuration = None \<and> 0 < snd (getVideoDuration L w st))"
  shows "map_option duration_seconds (media (fst (processMedia L w msg st)) x) =
         map_option duration_seconds (media st x)"
proof (cases "fault w MediaSetProcessing")
  case (Some e)
  then show ?thesis by (simp add: processMedia_update_fails)
next
  case None
  have tv: "map_option duration_seconds
              (media (fst (transcodeVideo L w (MediaID msg) (S3Key msg) s)) y) =
            map_option duration_seconds (media s y)" for s y
    using assms None
    by (intro transcodeVideo_duration_kept) (simp add: getVideoDuration_snd)
  have upd: "map_option duration_seconds (media (fst (mediaExec w p (MediaID msg) f s)) y) =
             map_option duration_seconds (media s y)"
    if "\<And>r. duration_seconds (f r) = duration_seconds r" for p f s y
    using that by (simp add: mediaExec_media option.map_comp o_def)
  show ?thesis
    using None
    by (simp add: processMedia_def Let_def case_prod_beta tv upd split: option.splits sum.splits)
qed

lemma processMedia_duration_written:
  assumes "fault w MediaSetProcessing = None" "stagingSucceeds w" "isVideoFile L (S3Key msg)"
    "fault w RunFfmpeg = None" "fault w MediaSetDuration = None"
    "0 < snd (getVideoDuration L w st)"
  shows "map_option duration_seconds (media (fst (processMedia L w msg st)) (MediaID msg)) =
         map_option (\<lambda>r. Some (snd (getVideoDuration L w st))) (media st (MediaID msg))"
proof -
  have tv: "map_option duration_seconds
              (media (fst (transcodeVideo L w (MediaID msg) (S3Key msg) s)) (MediaID msg)) =
            map_option (\<lambda>r. Some (snd (getVideoDuration L w st))) (media s (MediaID msg))" for s
    using assms transcodeVideo_duration_written[of w L "S3Key msg" s "MediaID msg"]
    by (simp add: getVideoDuration_snd)
  have upd: "map_option duration_seconds (media (fst (mediaExec w p (MediaID msg) f s)) y) =
             map_option duration_seconds (media s y)"
    if "\<And>r. duration_seconds (f r) = duration_seconds r" for p f s y
    using that by (simp add: mediaExec_media option.map_comp o_def)
  show ?thesis
    using assms(1)
    by (simp add: processMedia_def Let_def case_prod_beta tv upd mediaExec_media_row
        option.map_comp o_def split: option.splits sum.splits)
qed

subsection \<open>The classification and the status query\<close>






subsection \<open>The examples\<close>

lemma okEnv_faults [simp]: "fault okEnv p = None"
  by (simp add: okEnv_def)

lemma okEnv_staging: "stagingSucceeds okEnv"
  by (simp add: stagingSucceeds_def)

lemma clip_is_video: "isVideoFile asciiLib ''original/7/m1/clip.mov''"
  by (simp add: isVideoFile_def asciiLib_def Ext_def asciiToLower_def videoExts_def)

lemma doc_not_video: "\<not> isVideoFile asciiLib ''original/7/m2/doc.pdf''"
  by (simp add: isVideoFile_def asciiLib_def Ext_def asciiToLower_def videoExts_def)

lemma okEnv_probe: "snd (getVideoDuration asciiLib okEnv st) = 12"
  by (simp add: getVideoDuration_snd asciiLib_def okEnv_def asciiTrimSpace_def asciiSpace_def
      digitValue_def)

lemma transcodeVideo_download_fails:
  assumes "fault w NewMinioClient = None" "fault w MkdirTemp = None" "fault w GetObject = None"
    "fault w CreateInput = None" "fault w CopyObject = Some e"
  shows "snd (transcodeVideo L w mid key st) = Inl (''failed to download file: '' @ e)"
  using assms by (simp add: transcodeVideo_def Let_def)

lemma fetchFailsEnv_faults [simp]:
  "fault fetchFailsEnv p = (if p = CopyObject then Some ''connection refused'' else None)"
  by (simp add: fetchFailsEnv_def)

lemma fetchFailsEnv_result:
  "snd (transcodeVideo asciiLib fetchFailsEnv mid key st) =
     Inl ''failed to download file: connection refused''"
  by (simp add: transcodeVideo_download_fails[where e = "''connection refused''"])

lemma encoderFailsEnv_faults [simp]:
  "fault encoderFailsEnv p = (if p = RunFfmpeg then Some ''exit status 1'' else None)"
  by (simp add: encoderFailsEnv_def)

lemma encoderFailsEnv_staging: "stagingSucceeds encoderFailsEnv"
  by (simp add: stagingSucceeds_def)

lemma okEnv_clip_result:
  "snd (transcodeVideo asciiLib okEnv ''m1'' ''original/7/m1/clip.mov'' st) = Inr ''processed/m1.mp4''"
  using transcodeVideo_stored[of okEnv asciiLib "''original/7/m1/clip.mov''" "''m1''" st]
    okEnv_staging clip_is_video
  by simp

subsection \<open>The processed key of a row whose original key is no video key\<close>

lemma transcodeVideo_original_key [simp]:
  "map_option s3_key_original (media (fst (transcodeVideo L w mid key st)) x) =
   map_option s3_key_original (media st x)"
  by (simp add: transcodeVideo_def Let_def case_prod_beta mediaExec_media option.map_comp o_def
      split: option.splits)

lemma transcodeVideo_nonvideo_key:
  "\<not> isVideoFile L key \<Longrightarrow> snd (transcodeVideo L w mid key st) = Inr k \<Longrightarrow> k = []"
  by (auto simp add: transcodeVideo_def Let_def case_prod_beta split: option.splits if_splits)

lemma processMedia_original_key:
  "map_option s3_key_original (media (fst (processMedia L w msg st)) (MediaID msg)) =
   map_option s3_key_original (media st (MediaID msg))"
proof -
  have upd: "map_option s3_key_original (media (fst (mediaExec w p (MediaID msg) f s)) (MediaID msg))
               = map_option s3_key_original (media s (MediaID msg))"
    if "\<And>r. s3_key_original (f r) = s3_key_original r" for p f s
    using that by (simp add: mediaExec_media option.map_comp o_def)
  show ?thesis
    by (simp add: processMedia_def Let_def case_prod_beta upd split: option.splits sum.splits)
qed

text \<open>The handler keeps the processed key empty in every row whose original key is no video
  key, when the message carries the original key of its row, as the publisher builds it.\<close>

lemma processMedia_keeps_nonvideo_key_empty:
  assumes key: "\<And>r. media st (MediaID msg) = Some r \<Longrightarrow> s3_key_original r = S3Key msg"
    and inv: "\<And>x r. media st x = Some r \<Longrightarrow> \<not> isVideoFile L (s3_key_original r) \<Longrightarrow>
                coalescedProcessedKey r = []"
    and after: "media (fst (processMedia L w msg st)) x = Some r'"
    and nv: "\<not> isVideoFile L (s3_key_original r')"
  shows "coalescedProcessedKey r' = []"
proof (cases "x = MediaID msg")
  case False
  with after have "media st x = Some r'" by (simp add: processMedia_media_other)
  with inv nv show ?thesis by blast
next
  case True
  show ?thesis
  proof (cases "fault w MediaSetProcessing")
    case (Some e)
    with after have "media st x = Some r'" by (simp add: processMedia_update_fails)
    with inv nv show ?thesis by blast
  next
    case None
    from after True processMedia_original_key[of L w msg st]
    obtain r where r: "media st (MediaID msg) = Some r" "s3_key_original r = s3_key_original r'"
      by (cases "media st (MediaID msg)") auto
    with key nv have nvk: "\<not> isVideoFile L (S3Key msg)" by simp
    from r nv inv have before: "coalescedProcessedKey r = []" by metis
    from processMedia_processed_key[OF None, of L msg st] after True r(1)
    have "s3_key_processed r' =
            (case snd (transcodeVideo L w (MediaID msg) (S3Key msg) st) of
               Inl e \<Rightarrow> s3_key_processed r
             | Inr k \<Rightarrow> if fault w MediaSetReady = None then Some k else s3_key_processed r)"
      by simp
    with before transcodeVideo_nonvideo_key[OF nvk] show ?thesis
      by (auto simp add: coalescedProcessedKey_def split: sum.splits if_splits)
  qed
qed

lemma processMedia_failed_update_called:
  assumes "fault w MediaSetProcessing = None"
    "snd (transcodeVideo L w (MediaID msg) (S3Key msg) st) = Inl e"
  shows "MediaSetFailed \<in> set (calls (fst (processMedia L w msg st)))"
proof -
  have R: "\<And>s. snd (transcodeVideo L w (MediaID msg) (S3Key msg) s) = Inl e"
    using assms(2) transcodeVideo_snd_indep by metis
  show ?thesis
    using assms(1) by (simp add: processMedia_def Let_def case_prod_beta R)
qed

lemma processMedia_jobs_failed_discarded:
  assumes "fault w JobInsert = None" "newJobID w \<notin> set (map job_id (jobs st))"
    "fault w MediaSetProcessing = None"
    "snd (transcodeVideo L w (MediaID msg) (S3Key msg) st) = Inl e"
    "fault w JobSetFailed = Some x"
  shows "jobs (fst (processMedia L w msg st)) = jobs st @
           [\<lparr>job_id = newJobID w, job_media_id = MediaID msg, job_status = ''processing'',
             job_error_message = None, job_started_at = Some (now w JobInsert),
             job_completed_at = None, job_created_at = now w JobInsert\<rparr>]"
proof -
  have R: "\<And>s. snd (transcodeVideo L w (MediaID msg) (S3Key msg) s) = Inl e"
    using assms(4) transcodeVideo_snd_indep by metis
  have ins: "newJobID w \<notin> set (map job_id (jobs (rlog lv m kv st)))" for lv m kv
    using assms(2) by simp
  show ?thesis
    using assms(1,3,5)
    by (simp add: processMedia_def Let_def case_prod_beta R insertJob_created[OF assms(1) ins]
        jobExec_jobs del: set_map)
qed

lemma cancelledEncodeEnv_faults [simp]:
  "fault cancelledEncodeEnv p =
     (if p = RunFfmpeg then Some ''signal: killed''
      else if p = MediaSetFailed \<or> p = JobSetFailed then Some ''context canceled'' else None)"
  by (simp add: cancelledEncodeEnv_def)

lemma cancelledFetchEnv_faults [simp]:
  "fault cancelledFetchEnv p =
     (if p = CopyObject \<or> p = MediaSetFailed \<or> p = JobSetFailed
      then Some ''context canceled'' else None)"
  by (simp add: cancelledFetchEnv_def)

section \<open>The claims\<close>

text \<open>
  Claim C1, as the code has it.  The handler makes no claim check.  When its update of the
  media row to \<open>processing\<close> is executed, the status that the run leaves in the row is
  determined by this run alone, whatever the status was before: \<open>failed\<close> when the
  transcode sequence fails and the update to \<open>failed\<close> is executed, \<open>ready\<close> when the
  sequence succeeds and the update to \<open>ready\<close> is executed, \<open>processing\<close> otherwise.
  Whether the run invokes the encoder depends on the staging and on the key only.  So a
  second invocation after a completed run processes the event again, and the status stays
  \<open>ready\<close> only when that run succeeds as well.
\<close>

theorem handler_makes_no_claim:
  assumes "fault w MediaSetProcessing = None"
  shows "map_option status (media (fst (processMedia L w msg st)) (MediaID msg)) =
           map_option
             (\<lambda>r. case snd (transcodeVideo L w (MediaID msg) (S3Key msg) st) of
                     Inl e \<Rightarrow> if fault w MediaSetFailed = None then ''failed'' else ''processing''
                   | Inr k \<Rightarrow> if fault w MediaSetReady = None then ''ready'' else ''processing'')
             (media st (MediaID msg)) \<and>
         (RunFfmpeg \<in> set (calls (fst (processMedia L w msg st))) \<longleftrightarrow>
            RunFfmpeg \<in> set (calls st) \<or> (stagingSucceeds w \<and> isVideoFile L (S3Key msg)))"
  using assms processMedia_status[OF assms, of L msg st]
  by (simp add: processMedia_encoder_called)

theorem handler_makes_no_claim_witness:
  "fault okEnv MediaSetProcessing = None \<and>
   map_option status (media (fst (processMedia asciiLib okEnv clipMsg queuedState)) ''m1'') =
     Some ''ready'' \<and>
   RunFfmpeg \<in> set (calls (fst (processMedia asciiLib okEnv clipMsg
                                  (fst (processMedia asciiLib okEnv clipMsg queuedState))))) \<and>
   map_option status
     (media (fst (processMedia asciiLib okEnv clipMsg
                    (fst (processMedia asciiLib okEnv clipMsg queuedState)))) ''m1'') =
     Some ''ready''"
proof -
  have up: "fault okEnv MediaSetProcessing = None" by simp
  have vid: "isVideoFile asciiLib (S3Key clipMsg)"
    using clip_is_video by (simp add: clipMsg_def)
  have tv: "snd (transcodeVideo asciiLib okEnv (MediaID clipMsg) (S3Key clipMsg) s) =
              Inr ''processed/m1.mp4''" for s
    using okEnv_clip_result by (simp add: clipMsg_def)
  have first: "map_option status (media (fst (processMedia asciiLib okEnv clipMsg queuedState))
                 ''m1'') = Some ''ready''"
    using handler_makes_no_claim[OF up, of asciiLib clipMsg queuedState]
    by (simp add: tv) (simp add: clipMsg_def queuedState_def)
  have second: "map_option status
     (media (fst (processMedia asciiLib okEnv clipMsg
                    (fst (processMedia asciiLib okEnv clipMsg queuedState)))) ''m1'') =
     Some ''ready''"
    using handler_makes_no_claim[OF up, of asciiLib clipMsg
        "fst (processMedia asciiLib okEnv clipMsg queuedState)"] first
    by (simp add: tv) (auto simp add: clipMsg_def)
  have enc: "RunFfmpeg \<in> set (calls (fst (processMedia asciiLib okEnv clipMsg
                                  (fst (processMedia asciiLib okEnv clipMsg queuedState)))))"
    using handler_makes_no_claim[OF up, of asciiLib clipMsg
        "fst (processMedia asciiLib okEnv clipMsg queuedState)"] vid okEnv_staging
    by simp
  show ?thesis
    using up first second enc by simp
qed

text \<open>
  Against claim C1 as the specification states it (a second invocation after a completed
  run does not change the terminal status): the first run leaves \<open>m1\<close> with status
  \<open>ready\<close>; a redelivery of the same message while the object store refuses the
  connection is not turned away, and leaves \<open>m1\<close> with status \<open>failed\<close>.
\<close>

theorem redelivery_changes_ready_counterexample:
  "snd (processMedia asciiLib okEnv clipMsg queuedState) = None \<and>
   map_option status (media (fst (processMedia asciiLib okEnv clipMsg queuedState)) ''m1'') =
     Some ''ready'' \<and>
   snd (processMedia asciiLib fetchFailsEnv clipMsg
          (fst (processMedia asciiLib okEnv clipMsg queuedState))) =
     Some ''failed to download file: connection refused'' \<and>
   map_option status
     (media (fst (processMedia asciiLib fetchFailsEnv clipMsg
                    (fst (processMedia asciiLib okEnv clipMsg queuedState)))) ''m1'') =
     Some ''failed''"
proof -
  have tv: "snd (transcodeVideo asciiLib okEnv (MediaID clipMsg) (S3Key clipMsg) s) =
              Inr ''processed/m1.mp4''" for s
    using okEnv_clip_result by (simp add: clipMsg_def)
  have run1: "snd (processMedia asciiLib okEnv clipMsg queuedState) = None"
    by (simp add: processMedia_result tv)
  have first: "map_option status (media (fst (processMedia asciiLib okEnv clipMsg queuedState))
                 ''m1'') = Some ''ready''"
    using processMedia_status[of okEnv asciiLib clipMsg queuedState]
    by (simp add: tv) (simp add: clipMsg_def queuedState_def)
  have run2: "snd (processMedia asciiLib fetchFailsEnv clipMsg s) =
                Some ''failed to download file: connection refused''" for s
    by (simp add: processMedia_result fetchFailsEnv_result)
  have second: "map_option status
     (media (fst (processMedia asciiLib fetchFailsEnv clipMsg
                    (fst (processMedia asciiLib okEnv clipMsg queuedState)))) ''m1'') =
     Some ''failed''"
    using processMedia_status[of fetchFailsEnv asciiLib clipMsg
        "fst (processMedia asciiLib okEnv clipMsg queuedState)"] first
    by (simp add: fetchFailsEnv_result) (auto simp add: clipMsg_def)
  show ?thesis
    using run1 first run2 second by simp
qed

text \<open>
  Claim C2, as the code has it.  When the staging succeeded, the key is a video key and the
  encoder run returns an error, the attempt fails with an error whose text is
  \<open>ffmpeg transcoding failed: \<close> followed by the text of the run's error (such as
  \<open>exit status 1\<close>).  The combined output of the encoder goes to the log and nowhere
  else: the handler's return value is the same whatever the output is.  When the job row
  was created and the database executes its update, that error text is its error message.
\<close>

theorem encoder_failure_carries_exit_error:
  assumes "fault w MediaSetProcessing = None" and "stagingSucceeds w"
    and "isVideoFile L (S3Key msg)" and "fault w RunFfmpeg = Some e"
  shows "snd (processMedia L w msg st) = Some (''ffmpeg transcoding failed: '' @ e) \<and>
         snd (processMedia L (w\<lparr>ffmpegOutput := out\<rparr>) msg st) = snd (processMedia L w msg st) \<and>
         (Error, ''ffmpeg failed'', [(''error'', e), (''output'', ffmpegOutput w)])
           \<in> set (logs (fst (processMedia L w msg st))) \<and>
         (fault w JobInsert = None \<and> newJobID w \<notin> set (map job_id (jobs st)) \<and>
          newJobID w \<noteq> [] \<and> fault w JobSetFailed = None \<longrightarrow>
            jobs (fst (processMedia L w msg st)) = jobs st @
              [\<lparr>job_id = newJobID w, job_media_id = MediaID msg, job_status = ''failed'',
                job_error_message = Some (''ffmpeg transcoding failed: '' @ e),
                job_started_at = Some (now w JobInsert),
                job_completed_at = Some (now w JobSetFailed),
                job_created_at = now w JobInsert\<rparr>])"
proof -
  have tv: "snd (transcodeVideo L w (MediaID msg) (S3Key msg) st) =
              Inl (''ffmpeg transcoding failed: '' @ e)"
    by (simp add: transcodeVideo_encoder_fails[OF assms(2-4)])
  have "snd (processMedia L w msg st) = Some (''ffmpeg transcoding failed: '' @ e)"
    using assms(1) tv by (simp add: processMedia_result)
  moreover have "snd (processMedia L (w\<lparr>ffmpegOutput := out\<rparr>) msg st) =
                 snd (processMedia L w msg st)"
    by (rule processMedia_result_env) simp_all
  ultimately show ?thesis
    using processMedia_encoder_logged[OF assms, of st]
      processMedia_jobs_failed[of w st L msg "''ffmpeg transcoding failed: '' @ e"] assms(1) tv
    by blast
qed

theorem encoder_failure_carries_exit_error_witness:
  "fault encoderFailsEnv MediaSetProcessing = None \<and> stagingSucceeds encoderFailsEnv \<and>
   isVideoFile asciiLib (S3Key clipMsg) \<and>
   fault encoderFailsEnv RunFfmpeg = Some ''exit status 1'' \<and>
   snd (processMedia asciiLib encoderFailsEnv clipMsg queuedState) =
     Some ''ffmpeg transcoding failed: exit status 1'' \<and>
   (Error, ''ffmpeg failed'', [(''error'', ''exit status 1''),
                              (''output'', ''Unknown encoder libx265'')])
     \<in> set (logs (fst (processMedia asciiLib encoderFailsEnv clipMsg queuedState))) \<and>
   jobs (fst (processMedia asciiLib encoderFailsEnv clipMsg queuedState)) =
     [\<lparr>job_id = ''job-1'', job_media_id = ''m1'', job_status = ''failed'',
       job_error_message = Some ''ffmpeg transcoding failed: exit status 1'',
       job_started_at = Some 100, job_completed_at = Some 100, job_created_at = 100\<rparr>]"
proof -
  have up: "fault encoderFailsEnv MediaSetProcessing = None" by simp
  have vid: "isVideoFile asciiLib (S3Key clipMsg)"
    using clip_is_video by (simp add: clipMsg_def)
  have enc: "fault encoderFailsEnv RunFfmpeg = Some ''exit status 1''" by simp
  have env: "newJobID encoderFailsEnv = ''job-1''" "now encoderFailsEnv p = 100"
    "ffmpegOutput encoderFailsEnv = ''Unknown encoder libx265''" for p
    by (simp_all add: encoderFailsEnv_def)
  show ?thesis
    using up vid enc encoderFailsEnv_staging
      encoder_failure_carries_exit_error[OF up encoderFailsEnv_staging vid enc, of queuedState]
    by (simp add: env) (simp add: clipMsg_def queuedState_def)
qed

text \<open>
  Against claim C2 as the specification states it (the error carries the encoder's combined
  output): the encoder prints \<open>Unknown encoder libx265\<close> and exits with status 1; the
  handler's error and the stored error message are
  \<open>ffmpeg transcoding failed: exit status 1\<close>, and the output is no part of that text:
  its first letter does not occur there.
\<close>

theorem encoder_output_in_error_counterexample:
  "fault encoderFailsEnv RunFfmpeg = Some ''exit status 1'' \<and>
   ffmpegOutput encoderFailsEnv = ''Unknown encoder libx265'' \<and>
   snd (processMedia asciiLib encoderFailsEnv clipMsg queuedState) =
     Some ''ffmpeg transcoding failed: exit status 1'' \<and>
   map job_error_message (jobs (fst (processMedia asciiLib encoderFailsEnv clipMsg queuedState))) =
     [Some ''ffmpeg transcoding failed: exit status 1''] \<and>
   CHR ''U'' \<in> set (ffmpegOutput encoderFailsEnv) \<and>
   CHR ''U'' \<notin> set ''ffmpeg transcoding failed: exit status 1''"
proof -
  have vid: "isVideoFile asciiLib (S3Key clipMsg)"
    using clip_is_video by (simp add: clipMsg_def)
  have out: "ffmpegOutput encoderFailsEnv = ''Unknown encoder libx265''"
    by (simp add: encoderFailsEnv_def)
  have tv: "snd (transcodeVideo asciiLib encoderFailsEnv (MediaID clipMsg) (S3Key clipMsg) s) =
              Inl ''ffmpeg transcoding failed: exit status 1''" for s
    using transcodeVideo_encoder_fails[OF encoderFailsEnv_staging vid,
        of "''exit status 1''" "MediaID clipMsg" s]
    by simp
  have run: "snd (processMedia asciiLib encoderFailsEnv clipMsg queuedState) =
               Some ''ffmpeg transcoding failed: exit status 1''"
    by (simp add: processMedia_result tv)
  have job: "jobs (fst (processMedia asciiLib encoderFailsEnv clipMsg queuedState)) =
     jobs queuedState @
     [\<lparr>job_id = newJobID encoderFailsEnv, job_media_id = MediaID clipMsg, job_status = ''failed'',
       job_error_message = Some ''ffmpeg transcoding failed: exit status 1'',
       job_started_at = Some (now encoderFailsEnv JobInsert),
       job_completed_at = Some (now encoderFailsEnv JobSetFailed),
       job_created_at = now encoderFailsEnv JobInsert\<rparr>]"
    by (rule processMedia_jobs_failed)
      (simp_all add: tv, simp_all add: queuedState_def encoderFailsEnv_def)
  show ?thesis
    using out run job by (simp add: queuedState_def)
qed

text \<open>
  Claim C3.  A successful run whose transcode step produced the empty processed key sets
  the status of the media row to \<open>ready\<close> and leaves its processed key empty: the value
  the update stores is the empty string, so the key reads as empty after the run, and when
  it read as empty before (the column NULL or the empty string, as the handler keeps it in
  every row whose original key is no video key) it reads the same as before.  No other
  column of the row and no other row changes.
\<close>

theorem empty_key_leaves_processed_key_empty:
  assumes "snd (processMedia L w msg st) = None"
    and "snd (transcodeVideo L w (MediaID msg) (S3Key msg) st) = Inr []"
    and "media st (MediaID msg) = Some r"
  shows "media (fst (processMedia L w msg st)) (MediaID msg) =
           Some (r\<lparr>status := ''ready'', s3_key_processed := Some []\<rparr>) \<and>
         coalescedProcessedKey (r\<lparr>status := ''ready'', s3_key_processed := Some []\<rparr>) = [] \<and>
         (coalescedProcessedKey r = [] \<longrightarrow>
            coalescedProcessedKey (r\<lparr>status := ''ready'', s3_key_processed := Some []\<rparr>) =
              coalescedProcessedKey r) \<and>
         (\<forall>x. x \<noteq> MediaID msg \<longrightarrow> media (fst (processMedia L w msg st)) x = media st x)"
proof -
  from assms(1,2) have ok: "fault w MediaSetProcessing = None" "fault w MediaSetReady = None"
    by (auto simp add: processMedia_result split: option.splits)
  from assms(2) have "stagingSucceeds w" "\<not> isVideoFile L (S3Key msg)"
    using transcodeVideo_empty_key by blast+
  then have "media (fst (processMedia L w msg st)) (MediaID msg) =
               Some (r\<lparr>status := ''ready'', s3_key_processed := Some []\<rparr>)"
    using ok assms(3) by (simp add: processMedia_nonvideo)
  then show ?thesis
    by (simp add: coalescedProcessedKey_def processMedia_media_other)
qed

theorem empty_key_leaves_processed_key_empty_witness:
  "snd (processMedia asciiLib okEnv docMsg queuedState) = None \<and>
   snd (transcodeVideo asciiLib okEnv (MediaID docMsg) (S3Key docMsg) queuedState) = Inr [] \<and>
   media queuedState (MediaID docMsg) = Some docRow \<and>
   coalescedProcessedKey docRow = [] \<and>
   media (fst (processMedia asciiLib okEnv docMsg queuedState)) ''m2'' =
     Some (docRow\<lparr>status := ''ready'', s3_key_processed := Some []\<rparr>) \<and>
   coalescedProcessedKey (docRow\<lparr>status := ''ready'', s3_key_processed := Some []\<rparr>) =
     coalescedProcessedKey docRow \<and>
   media (fst (processMedia asciiLib okEnv docMsg queuedState)) ''m1'' = Some clipRow"
proof -
  have tv: "snd (transcodeVideo asciiLib okEnv (MediaID docMsg) (S3Key docMsg) queuedState)
              = Inr []"
    using doc_not_video by (simp add: transcodeVideo_nonvideo okEnv_staging docMsg_def)
  have run: "snd (processMedia asciiLib okEnv docMsg queuedState) = None"
    by (simp add: processMedia_result tv)
  have row: "media queuedState (MediaID docMsg) = Some docRow"
    by (simp add: docMsg_def queuedState_def)
  have empty: "coalescedProcessedKey docRow = []"
    by (simp add: coalescedProcessedKey_def docRow_def)
  show ?thesis
    using run tv row empty empty_key_leaves_processed_key_empty[OF run tv row]
    by (simp add: docMsg_def) (simp add: queuedState_def)
qed



text \<open>
  Claim C5, as the code has it.  When the handler reaches the transcode sequence and the
  sequence returns an error (its outcome depends on the environment and the key only, not
  on the state it starts from), the handler returns that error, whose text is not empty,
  and issues the update of the media row to \<open>failed\<close>; the error of that update is
  discarded, so the row, if there is one, has status \<open>failed\<close> when the database executes
  the update and keeps status \<open>processing\<close> when it does not.  When the job row was
  created, the handler issues its update too and discards its error: the row has status
  \<open>failed\<close>, the error text as its error message and its completion time set when the
  database executes the update, and stays as it was inserted when it does not.  When the
  insert failed, the job table is left as it was.
\<close>

theorem transcode_error_marks_failed:
  assumes "fault w MediaSetProcessing = None"
    and "snd (transcodeVideo L w (MediaID msg) (S3Key msg) st) = Inl e"
  shows "snd (processMedia L w msg st) = Some e \<and> e \<noteq> [] \<and>
         MediaSetFailed \<in> set (calls (fst (processMedia L w msg st))) \<and>
         map_option status (media (fst (processMedia L w msg st)) (MediaID msg)) =
           map_option (\<lambda>r. if fault w MediaSetFailed = None then ''failed'' else ''processing'')
             (media st (MediaID msg)) \<and>
         (fault w JobInsert = None \<and> newJobID w \<notin> set (map job_id (jobs st)) \<and>
          newJobID w \<noteq> [] \<and> fault w JobSetFailed = None \<longrightarrow>
            jobs (fst (processMedia L w msg st)) = jobs st @
              [\<lparr>job_id = newJobID w, job_media_id = MediaID msg, job_status = ''failed'',
                job_error_message = Some e, job_started_at = Some (now w JobInsert),
                job_completed_at = Some (now w JobSetFailed),
                job_created_at = now w JobInsert\<rparr>]) \<and>
         (fault w JobInsert = None \<and> newJobID w \<notin> set (map job_id (jobs st)) \<and>
          fault w JobSetFailed \<noteq> None \<longrightarrow>
            jobs (fst (processMedia L w msg st)) = jobs st @
              [\<lparr>job_id = newJobID w, job_media_id = MediaID msg, job_status = ''processing'',
                job_error_message = None, job_started_at = Some (now w JobInsert),
                job_completed_at = None, job_created_at = now w JobInsert\<rparr>]) \<and>
         (fault w JobInsert \<noteq> None \<longrightarrow> jobs (fst (processMedia L w msg st)) = jobs st)"
proof -
  have "snd (processMedia L w msg st) = Some e"
    using assms by (simp add: processMedia_result)
  moreover have "e \<noteq> []"
    using assms(2) by (rule transcodeVideo_error_nonempty)
  moreover have "MediaSetFailed \<in> set (calls (fst (processMedia L w msg st)))"
    using assms by (rule processMedia_failed_update_called)
  moreover have "map_option status (media (fst (processMedia L w msg st)) (MediaID msg)) =
           map_option (\<lambda>r. if fault w MediaSetFailed = None then ''failed'' else ''processing'')
             (media st (MediaID msg))"
    using assms by (simp add: processMedia_status)
  moreover have "jobs (fst (processMedia L w msg st)) = jobs st"
    if "fault w JobInsert \<noteq> None"
    using that processMedia_jobs_not_created by fastforce
  moreover have "jobs (fst (processMedia L w msg st)) = jobs st @
              [\<lparr>job_id = newJobID w, job_media_id = MediaID msg, job_status = ''processing'',
                job_error_message = None, job_started_at = Some (now w JobInsert),
                job_completed_at = None, job_created_at = now w JobInsert\<rparr>]"
    if "fault w JobInsert = None" "newJobID w \<notin> set (map job_id (jobs st))"
      "fault w JobSetFailed \<noteq> None"
    using that assms processMedia_jobs_failed_discarded[of w st L msg e] by fastforce
  ultimately show ?thesis
    using processMedia_jobs_failed[of w st L msg e] assms by blast
qed

theorem transcode_error_marks_failed_witness:
  "fault fetchFailsEnv MediaSetProcessing = None \<and>
   snd (transcodeVideo asciiLib fetchFailsEnv (MediaID clipMsg) (S3Key clipMsg) queuedState) =
     Inl ''failed to download file: connection refused'' \<and>
   snd (processMedia asciiLib fetchFailsEnv clipMsg queuedState) =
     Some ''failed to download file: connection refused'' \<and>
   MediaSetFailed \<in> set (calls (fst (processMedia asciiLib fetchFailsEnv clipMsg queuedState))) \<and>
   map_option status (media (fst (processMedia asciiLib fetchFailsEnv clipMsg queuedState)) ''m1'') =
     Some ''failed'' \<and>
   jobs (fst (processMedia asciiLib fetchFailsEnv clipMsg queuedState)) =
     [\<lparr>job_id = ''job-2'', job_media_id = ''m1'', job_status = ''failed'',
       job_error_message = Some ''failed to download file: connection refused'',
       job_started_at = Some 200, job_completed_at = Some 200, job_created_at = 200\<rparr>]"
proof -
  have up: "fault fetchFailsEnv MediaSetProcessing = None" by simp
  note tv = fetchFailsEnv_result[of "MediaID clipMsg" "S3Key clipMsg" queuedState]
  have env: "newJobID fetchFailsEnv = ''job-2''" "now fetchFailsEnv p = 200" for p
    by (simp_all add: fetchFailsEnv_def)
  show ?thesis
    using up tv transcode_error_marks_failed[OF up tv]
    by (simp add: env) (simp add: clipMsg_def queuedState_def)
qed

text \<open>
  Against claim C5 as the specification states it (every run whose transcode sequence
  returns an error leaves the media row and the job \<open>failed\<close>): the request is cancelled
  while the encoder runs; the encoder is killed, the transcode sequence returns an error and
  the handler returns it, but the two updates issued on the cancelled request fail and
  their errors are discarded, so the media row and the job row keep status
  \<open>processing\<close>, and the job row has no error message and no completion time.
\<close>

theorem cancelled_encode_stays_processing_counterexample:
  "snd (transcodeVideo asciiLib cancelledEncodeEnv (MediaID clipMsg) (S3Key clipMsg) queuedState) =
     Inl ''ffmpeg transcoding failed: signal: killed'' \<and>
   snd (processMedia asciiLib cancelledEncodeEnv clipMsg queuedState) =
     Some ''ffmpeg transcoding failed: signal: killed'' \<and>
   map_option status
     (media (fst (processMedia asciiLib cancelledEncodeEnv clipMsg queuedState)) ''m1'') =
     Some ''processing'' \<and>
   jobs (fst (processMedia asciiLib cancelledEncodeEnv clipMsg queuedState)) =
     [\<lparr>job_id = ''job-1'', job_media_id = ''m1'', job_status = ''processing'',
       job_error_message = None, job_started_at = Some 100, job_completed_at = None,
       job_created_at = 100\<rparr>]"
proof -
  have vid: "isVideoFile asciiLib (S3Key clipMsg)"
    using clip_is_video by (simp add: clipMsg_def)
  have staged: "stagingSucceeds cancelledEncodeEnv"
    by (simp add: stagingSucceeds_def)
  have tv: "snd (transcodeVideo asciiLib cancelledEncodeEnv (MediaID clipMsg) (S3Key clipMsg) s) =
              Inl ''ffmpeg transcoding failed: signal: killed''" for s
    using transcodeVideo_encoder_fails[OF staged vid, of "''signal: killed''" "MediaID clipMsg" s]
    by simp
  have run: "snd (processMedia asciiLib cancelledEncodeEnv clipMsg queuedState) =
               Some ''ffmpeg transcoding failed: signal: killed''"
    by (simp add: processMedia_result tv)
  have row: "map_option status
     (media (fst (processMedia asciiLib cancelledEncodeEnv clipMsg queuedState)) ''m1'') =
     Some ''processing''"
    using processMedia_status[of cancelledEncodeEnv asciiLib clipMsg queuedState]
    by (simp add: tv) (simp add: clipMsg_def queuedState_def)
  have job: "jobs (fst (processMedia asciiLib cancelledEncodeEnv clipMsg queuedState)) =
     jobs queuedState @
     [\<lparr>job_id = newJobID cancelledEncodeEnv, job_media_id = MediaID clipMsg,
       job_status = ''processing'', job_error_message = None,
       job_started_at = Some (now cancelledEncodeEnv JobInsert), job_completed_at = None,
       job_created_at = now cancelledEncodeEnv JobInsert\<rparr>]"
    by (rule processMedia_jobs_failed_discarded[where e = "''ffmpeg transcoding failed: signal: killed''"
          and x = "''context canceled''"])
      (simp_all add: tv, simp_all add: queuedState_def)
  show ?thesis
    using tv run row job
    by (simp add: queuedState_def) (simp add: cancelledEncodeEnv_def clipMsg_def)
qed





text \<open>
  Claim C8.  The probe returns a number and nothing else: when the probe program fails or
  its trimmed output does not scan as a number, the number is 0.  The probe changes neither
  table, and neither the outcome of the transcode sequence nor the handler's return value
  depends on what the probe does.
\<close>

theorem probe_never_fails:
  "(fault w RunFfprobe \<noteq> None \<or> ScanFloat L (TrimSpace L (ffprobeOutput w)) = None \<longrightarrow>
      snd (getVideoDuration L w st) = 0) \<and>
   jobs (fst (getVideoDuration L w st)) = jobs st \<and>
   media (fst (getVideoDuration L w st)) = media st \<and>
   snd (transcodeVideo L (w\<lparr>fault := (fault w)(RunFfprobe := pf), ffprobeOutput := po\<rparr>)
          (MediaID msg) (S3Key msg) st) =
     snd (transcodeVideo L w (MediaID msg) (S3Key msg) st) \<and>
   snd (processMedia L (w\<lparr>fault := (fault w)(RunFfprobe := pf), ffprobeOutput := po\<rparr>) msg st) =
     snd (processMedia L w msg st)"
proof -
  have "snd (getVideoDuration L w st) = 0"
    if "fault w RunFfprobe \<noteq> None \<or> ScanFloat L (TrimSpace L (ffprobeOutput w)) = None"
    using that by (auto simp add: getVideoDuration_snd split: option.splits)
  moreover have "snd (transcodeVideo L (w\<lparr>fault := (fault w)(RunFfprobe := pf),
                                          ffprobeOutput := po\<rparr>) (MediaID msg) (S3Key msg) st) =
                 snd (transcodeVideo L w (MediaID msg) (S3Key msg) st)"
    by (rule transcodeVideo_result_env) simp_all
  moreover have "snd (processMedia L (w\<lparr>fault := (fault w)(RunFfprobe := pf),
                                        ffprobeOutput := po\<rparr>) msg st) =
                 snd (processMedia L w msg st)"
    by (rule processMedia_result_env) simp_all
  ultimately show ?thesis by simp
qed

theorem probe_never_fails_witness:
  "fault probeFailsEnv RunFfprobe \<noteq> None \<and>
   snd (getVideoDuration asciiLib probeFailsEnv queuedState) = 0 \<and>
   ScanFloat asciiLib (TrimSpace asciiLib (ffprobeOutput probeGarbageEnv)) = None \<and>
   snd (getVideoDuration asciiLib probeGarbageEnv queuedState) = 0 \<and>
   snd (processMedia asciiLib probeFailsEnv clipMsg queuedState) = None"
proof -
  have f: "fault probeFailsEnv RunFfprobe \<noteq> None"
    by (simp add: probeFailsEnv_def)
  have g: "ScanFloat asciiLib (TrimSpace asciiLib (ffprobeOutput probeGarbageEnv)) = None"
    by (simp add: probeGarbageEnv_def asciiLib_def asciiTrimSpace_def asciiSpace_def
        digitValue_def)
  have env: "probeFailsEnv = okEnv\<lparr>fault := (fault okEnv)(RunFfprobe := Some ''exit status 1''),
                                    ffprobeOutput := ffprobeOutput okEnv\<rparr>"
    by (simp add: probeFailsEnv_def okEnv_def)
  have ok: "snd (processMedia asciiLib okEnv clipMsg queuedState) = None"
    using transcodeVideo_stored[of okEnv asciiLib "S3Key clipMsg" "MediaID clipMsg" queuedState]
      okEnv_staging clip_is_video
    by (simp add: processMedia_result clipMsg_def)
  show ?thesis
    using f g ok
      probe_never_fails[where w = probeFailsEnv and L = asciiLib and st = queuedState]
      probe_never_fails[where w = probeGarbageEnv and L = asciiLib and st = queuedState]
      probe_never_fails[where w = okEnv and L = asciiLib and st = queuedState and
        pf = "Some ''exit status 1''" and po = "ffprobeOutput okEnv" and msg = clipMsg]
    by (simp add: env [symmetric])
qed

text \<open>
  Claim C9, as the code has it.  The original file is fetched before the key is classified:
  whether the fetch is attempted depends on the client and the scratch directory only, not
  on the extension of the key.  So for every key, a video or not, when the handler reaches
  the transcode sequence and a staging step fails (the download among them), the handler
  returns an error, invokes no encoder, and issues the update of the media row to
  \<open>failed\<close>; the error of that update is discarded, so the row, if there is one, has
  status \<open>failed\<close> when the database executes the update and keeps status
  \<open>processing\<close> when it does not.
\<close>

theorem fetch_precedes_classification:
  assumes "fault w MediaSetProcessing = None" and "\<not> stagingSucceeds w"
  shows "(GetObject \<in> set (calls (fst (processMedia L w msg st))) \<longleftrightarrow>
            GetObject \<in> set (calls st) \<or>
            (fault w NewMinioClient = None \<and> fault w MkdirTemp = None)) \<and>
         (\<exists>e. e \<noteq> [] \<and> snd (processMedia L w msg st) = Some e) \<and>
         (RunFfmpeg \<in> set (calls (fst (processMedia L w msg st))) \<longleftrightarrow>
            RunFfmpeg \<in> set (calls st)) \<and>
         MediaSetFailed \<in> set (calls (fst (processMedia L w msg st))) \<and>
         map_option status (media (fst (processMedia L w msg st)) (MediaID msg)) =
           map_option (\<lambda>r. if fault w MediaSetFailed = None then ''failed'' else ''processing'')
             (media st (MediaID msg))"
proof -
  obtain e where e: "snd (transcodeVideo L w (MediaID msg) (S3Key msg) st) = Inl e"
    using transcodeVideo_staging_fails(1)[OF assms(2)] by blast
  then have "e \<noteq> []" by (rule transcodeVideo_error_nonempty)
  moreover have "snd (processMedia L w msg st) = Some e"
    using assms(1) e by (simp add: processMedia_result)
  moreover have "GetObject \<in> set (calls (fst (processMedia L w msg st))) \<longleftrightarrow>
                   GetObject \<in> set (calls st) \<or>
                   (fault w NewMinioClient = None \<and> fault w MkdirTemp = None)"
    using assms(1) by (simp add: processMedia_fetch_called)
  moreover have "RunFfmpeg \<in> set (calls (fst (processMedia L w msg st))) \<longleftrightarrow>
                   RunFfmpeg \<in> set (calls st)"
    using assms(2) by (simp add: processMedia_encoder_called)
  moreover have "MediaSetFailed \<in> set (calls (fst (processMedia L w msg st)))"
    using assms(1) e by (rule processMedia_failed_update_called)
  moreover have "map_option status (media (fst (processMedia L w msg st)) (MediaID msg)) =
           map_option (\<lambda>r. if fault w MediaSetFailed = None then ''failed'' else ''processing'')
             (media st (MediaID msg))"
    using assms(1) e by (simp add: processMedia_status)
  ultimately show ?thesis by blast
qed

theorem fetch_precedes_classification_witness:
  "\<not> isVideoFile asciiLib (S3Key docMsg) \<and>
   fault fetchFailsEnv MediaSetProcessing = None \<and> \<not> stagingSucceeds fetchFailsEnv \<and>
   GetObject \<in> set (calls (fst (processMedia asciiLib fetchFailsEnv docMsg queuedState))) \<and>
   snd (processMedia asciiLib fetchFailsEnv docMsg queuedState) =
     Some ''failed to download file: connection refused'' \<and>
   RunFfmpeg \<notin> set (calls (fst (processMedia asciiLib fetchFailsEnv docMsg queuedState))) \<and>
   MediaSetFailed \<in> set (calls (fst (processMedia asciiLib fetchFailsEnv docMsg queuedState))) \<and>
   map_option status (media (fst (processMedia asciiLib fetchFailsEnv docMsg queuedState)) ''m2'') =
     Some ''failed''"
proof -
  have up: "fault fetchFailsEnv MediaSetProcessing = None" by simp
  have st: "\<not> stagingSucceeds fetchFailsEnv" by (simp add: stagingSucceeds_def)
  have nv: "\<not> isVideoFile asciiLib (S3Key docMsg)"
    using doc_not_video by (simp add: docMsg_def)
  have res: "snd (processMedia asciiLib fetchFailsEnv docMsg queuedState) =
               Some ''failed to download file: connection refused''"
    by (simp add: processMedia_result fetchFailsEnv_result)
  show ?thesis
    using up st nv res fetch_precedes_classification[OF up st, of asciiLib docMsg queuedState]
    by (simp add: docMsg_def queuedState_def)
qed

text \<open>
  Against claim C9 as the specification states it (a download failure for an input that is
  no video leaves the media row \<open>failed\<close>): the request is cancelled while the document
  is copied; the copy fails and the handler returns its error, but the update to \<open>failed\<close>
  issued on the cancelled request fails and its error is discarded, so the media row keeps
  status \<open>processing\<close>.
\<close>

theorem cancelled_fetch_stays_processing_counterexample:
  "\<not> isVideoFile asciiLib (S3Key docMsg) \<and>
   snd (processMedia asciiLib cancelledFetchEnv docMsg queuedState) =
     Some ''failed to download file: context canceled'' \<and>
   RunFfmpeg \<notin> set (calls (fst (processMedia asciiLib cancelledFetchEnv docMsg queuedState))) \<and>
   map_option status
     (media (fst (processMedia asciiLib cancelledFetchEnv docMsg queuedState)) ''m2'') =
     Some ''processing''"
proof -
  have nv: "\<not> isVideoFile asciiLib (S3Key docMsg)"
    using doc_not_video by (simp add: docMsg_def)
  have tv: "snd (transcodeVideo asciiLib cancelledFetchEnv (MediaID docMsg) (S3Key docMsg) s) =
              Inl ''failed to download file: context canceled''" for s
    by (simp add: transcodeVideo_download_fails[where e = "''context canceled''"])
  have run: "snd (processMedia asciiLib cancelledFetchEnv docMsg queuedState) =
               Some ''failed to download file: context canceled''"
    by (simp add: processMedia_result tv)
  have enc: "RunFfmpeg \<notin> set (calls (fst (processMedia asciiLib cancelledFetchEnv docMsg queuedState)))"
    using nv by (simp add: processMedia_encoder_called queuedState_def)
  have row: "map_option status
     (media (fst (processMedia asciiLib cancelledFetchEnv docMsg queuedState)) ''m2'') =
     Some ''processing''"
    using processMedia_status[of cancelledFetchEnv asciiLib docMsg queuedState]
    by (simp add: tv) (simp add: docMsg_def queuedState_def)
  show ?thesis
    using nv run enc row by simp
qed

text \<open>
  Claim C10.  The transcode sequence issues the update of \<open>duration_seconds\<close> exactly when
  the encode succeeded and the probe returned a strictly positive duration.  When the probe
  returns 0 or less, the column keeps its value in every row, through the transcode
  sequence and through the whole handler; when the probe returns a positive duration after
  a successful encode and the database executes the update, the column of the row holds
  that duration.
\<close>

theorem duration_written_only_when_positive:
  "(MediaSetDuration \<in> set (calls (fst (transcodeVideo L w (MediaID msg) (S3Key msg) st))) \<longleftrightarrow>
      MediaSetDuration \<in> set (calls st) \<or>
      (stagingSucceeds w \<and> isVideoFile L (S3Key msg) \<and> fault w RunFfmpeg = None \<and>
       0 < snd (getVideoDuration L w st))) \<and>
   (snd (getVideoDuration L w st) \<le> 0 \<longrightarrow>
      map_option duration_seconds (media (fst (transcodeVideo L w (MediaID msg) (S3Key msg) st)) x) =
        map_option duration_seconds (media st x) \<and>
      map_option duration_seconds (media (fst (processMedia L w msg st)) x) =
        map_option duration_seconds (media st x)) \<and>
   (stagingSucceeds w \<and> isVideoFile L (S3Key msg) \<and> fault w RunFfmpeg = None \<and>
    fault w MediaSetDuration = None \<and> 0 < snd (getVideoDuration L w st) \<longrightarrow>
      map_option duration_seconds
        (media (fst (transcodeVideo L w (MediaID msg) (S3Key msg) st)) (MediaID msg)) =
        map_option (\<lambda>r. Some (snd (getVideoDuration L w st))) (media st (MediaID msg)))"
proof -
  have "map_option duration_seconds
          (media (fst (transcodeVideo L w (MediaID msg) (S3Key msg) st)) x) =
        map_option duration_seconds (media st x)"
    if "snd (getVideoDuration L w st) \<le> 0"
    using that by (intro transcodeVideo_duration_kept) simp
  moreover have "map_option duration_seconds (media (fst (processMedia L w msg st)) x) =
                 map_option duration_seconds (media st x)"
    if "snd (getVideoDuration L w st) \<le> 0"
    using that by (intro processMedia_duration_kept) simp
  ultimately show ?thesis
    using transcodeVideo_duration_called[of L w "MediaID msg" "S3Key msg" st]
      transcodeVideo_duration_written[of w L "S3Key msg" st "MediaID msg"]
    by blast
qed

theorem duration_written_only_when_positive_witness:
  "snd (getVideoDuration asciiLib probeFailsEnv queuedState) = 0 \<and>
   MediaSetDuration \<notin> set (calls (fst (transcodeVideo asciiLib probeFailsEnv
                                         (MediaID clipMsg) (S3Key clipMsg) queuedState))) \<and>
   map_option duration_seconds
     (media (fst (processMedia asciiLib probeFailsEnv clipMsg queuedState)) ''m1'') = Some None \<and>
   snd (getVideoDuration asciiLib okEnv queuedState) = 12 \<and>
   MediaSetDuration \<in> set (calls (fst (transcodeVideo asciiLib okEnv
                                         (MediaID clipMsg) (S3Key clipMsg) queuedState))) \<and>
   map_option duration_seconds
     (media (fst (transcodeVideo asciiLib okEnv (MediaID clipMsg) (S3Key clipMsg) queuedState))
        ''m1'') = Some (Some 12)"
proof -
  have zero: "snd (getVideoDuration asciiLib probeFailsEnv queuedState) = 0"
    by (simp add: getVideoDuration_snd probeFailsEnv_def)
  have vid: "isVideoFile asciiLib (S3Key clipMsg)"
    using clip_is_video by (simp add: clipMsg_def)
  show ?thesis
    using zero vid okEnv_staging okEnv_probe[of queuedState]
      duration_written_only_when_positive[of asciiLib probeFailsEnv clipMsg queuedState "''m1''"]
      duration_written_only_when_positive[of asciiLib okEnv clipMsg queuedState "''m1''"]
    by (simp add: clipMsg_def) (simp add: queuedState_def clipRow_def)
qed

end
